theory Spec2Isabelle
  imports Complex_Main
begin

chapter \<open>Stan: indexed assignment and the adaptive metric estimator\<close>

text \<open>
  A shallow embedding of \<^verbatim>\<open>src/stan/model/indexing/lvalue.hpp\<close>: the \<^verbatim>\<open>assign\<close>
  overloads, and the header \<^verbatim>\<open>stan/mcmc/mpi_auto_adaptation.hpp\<close> that follows them in
  that file (\<^verbatim>\<open>covariance\<close>, \<^verbatim>\<open>power_method\<close>, \<^verbatim>\<open>learn_metric\<close>,
  \<^verbatim>\<open>collect_draws\<close>). Line numbers are those of that file.

  Conventions.
  \<^item> An Eigen vector or row vector is a list; \<^verbatim>\<open>x.size()\<close> is \<open>length x\<close>. The scalar
    type of the \<^verbatim>\<open>assign\<close> templates is a type variable.
  \<^item> C++ \<^verbatim>\<open>int\<close> values are \<open>int\<close>. Sizes are taken to be below \<open>2^31\<close>, where
    the conversions between \<^verbatim>\<open>int\<close> and Eigen's index type are exact; in the indexing
    code no arithmetic on an index can leave the 32-bit range once its range check has
    passed. The counters of the estimator are taken not to overflow: the overflow of a
    signed \<^verbatim>\<open>int\<close> has no defined result in C++ that a model could follow.
  \<^item> The target of \<^verbatim>\<open>assign\<close> is passed by reference and mutated in place, so an
    exception leaves behind whatever was written before it. An outcome therefore carries
    the target as it stands when the call ends, both on return and on a throw.
  \<^item> The value assigned is taken not to alias the target.
  \<^item> Eigen checks the bounds of \<^verbatim>\<open>segment\<close>, \<^verbatim>\<open>row\<close> and \<^verbatim>\<open>block\<close> and the
    sizes of an assignment to such a view only through \<^verbatim>\<open>eigen_assert\<close>: the process
    aborts in a debug build and the behaviour is undefined under \<^verbatim>\<open>NDEBUG\<close>. Neither
    is a C++ exception; the model gives such a call the outcome \<open>Undefined\<close>
    (\<open>Undef\<close> in the estimator).
  \<^item> In \<^verbatim>\<open>covariance\<close> and \<^verbatim>\<open>learn_metric\<close> a \<^verbatim>\<open>double\<close> is a real number:
    rounding is not modelled, and the quotient by the divisor that \<^verbatim>\<open>covariance\<close>
    computes is no real number when that divisor is zero. \<^verbatim>\<open>power_method\<close> is kept
    independent of this: its scalar type is a type variable that only has the operations
    the code uses, with no law assumed about them.
\<close>

section \<open>Errors and outcomes\<close>

text \<open>
  The exceptions of the two subsystems, all derived from \<^verbatim>\<open>std::exception\<close>:
  \<^verbatim>\<open>std::out_of_range\<close> from \<^verbatim>\<open>check_range\<close>, \<^verbatim>\<open>std::invalid_argument\<close> from
  \<^verbatim>\<open>check_size_match\<close> and \<^verbatim>\<open>check_matching_sizes\<close>, \<^verbatim>\<open>std::invalid_argument\<close> from
  \<^verbatim>\<open>check_nonzero_size\<close>, the \<^verbatim>\<open>std::runtime_error\<close> thrown by \<^verbatim>\<open>learn_metric\<close>
  below ten draws, and an exception thrown by a collaborator (the model's log density,
  the Cholesky factorisation).
\<close>

datatype error =
    OutOfRange
  | SizeMismatch
  | ZeroSize
  | InsufficientSamples
  | CollaboratorFailure

text \<open>
  The outcome of an \<^verbatim>\<open>assign\<close>: it returns, it throws, or it violates a
  precondition of Eigen. The first two carry the target as the call leaves it.
\<close>

datatype 'a outcome = Done 'a | Raised error 'a | Undefined

text \<open>
  The outcome of a function of the estimator: it returns a value, it throws, it violates
  a precondition of Eigen or of \<^verbatim>\<open>std::vector\<close>, it is still polling its
  requests when the schedule of completions that it was given ends, or it divides by
  zero where the code has to keep the divisor away from zero: the quotients are then an
  infinity or NaN, no real numbers, and the model follows the computation no further.
\<close>

datatype 'a result = Returns 'a | Throws error | Undef | Blocked | NotFinite

section \<open>The validation layer\<close>

text \<open>
  Modelled from the spec: \<^verbatim>\<open>stan::math::check_range\<close> is not part of the sources at
  hand. The spec's OutOfRange is raised when an index resolves outside \<open>[1, size]\<close>;
  \<open>check_range mx i\<close> is true when the check passes.
\<close>

definition check_range :: "int \<Rightarrow> int \<Rightarrow> bool" where
  "check_range mx i = (1 \<le> i \<and> i \<le> mx)"

text \<open>
  Modelled from the spec: \<^verbatim>\<open>stan::math::check_size_match\<close> is not part of the sources
  at hand. The spec's SizeMismatch is raised when the two sizes differ;
  \<open>check_size_match i j\<close> is true when the check passes.
\<close>

definition check_size_match :: "int \<Rightarrow> int \<Rightarrow> bool" where
  "check_size_match i j = (i = j)"

section \<open>Indices\<close>

text \<open>
  \<^verbatim>\<open>index.hpp\<close> is not part of the sources at hand; the index structs are modelled by
  the fields that \<^verbatim>\<open>lvalue.hpp\<close> reads: \<^verbatim>\<open>n_\<close> of \<^verbatim>\<open>index_uni\<close>, and \<^verbatim>\<open>min_\<close>,
  \<^verbatim>\<open>max_\<close>, \<^verbatim>\<open>positive_idx_\<close> of \<^verbatim>\<open>index_min_max\<close>. (A name cannot end in an
  underscore here, hence \<open>n\<close>, \<open>idx_min\<close>, \<open>idx_max\<close>, \<open>positive_idx\<close>.)
\<close>

datatype index_uni = index_uni (n: int)

record index_min_max =
  idx_min :: int
  idx_max :: int
  positive_idx :: bool

text \<open>
  Modelled from the spec: the index types that instantiate the template parameter \<^verbatim>\<open>I\<close>
  of the multi-index overloads, and \<^verbatim>\<open>rvalue_index_size\<close> and \<^verbatim>\<open>rvalue_at\<close>
  (\<^verbatim>\<open>rvalue_index_size.hpp\<close>, \<^verbatim>\<open>rvalue_at.hpp\<close>), are not part of the sources at hand.
  The spec has an arbitrary ordered list of positions (multi) and the full range (omni):
  the number of positions is the length of the list, respectively the size of the
  dimension, and the \<open>k\<close>-th position (from 0) is the \<open>k\<close>-th entry of the list,
  respectively \<open>k + 1\<close>. \<^verbatim>\<open>rvalue_at\<close> is only ever called below the size that
  \<^verbatim>\<open>rvalue_index_size\<close> returned.
\<close>

datatype multi_index = index_multi (ns: "int list") | index_omni

fun rvalue_index_size :: "multi_index \<Rightarrow> int \<Rightarrow> int" where
  "rvalue_index_size (index_multi ps) sz = int (length ps)"
| "rvalue_index_size index_omni sz = sz"

fun rvalue_at :: "nat \<Rightarrow> multi_index \<Rightarrow> int" where
  "rvalue_at k (index_multi ps) = ps ! k"
| "rvalue_at k index_omni = int k + 1"

section \<open>Vectors\<close>

text \<open>
  \<^verbatim>\<open>x.segment(start, len) = v\<close>: Eigen requires \<open>0 \<le> start\<close>, \<open>0 \<le> len\<close>,
  \<open>start + len \<le> x.size()\<close> and \<open>v.size() = len\<close>.
\<close>

definition segment_assign :: "'a list \<Rightarrow> int \<Rightarrow> int \<Rightarrow> 'a list \<Rightarrow> 'a list outcome" where
  "segment_assign x start len v =
     (if 0 \<le> start \<and> 0 \<le> len \<and> start + len \<le> int (length x) \<and> int (length v) = len
      then Done (take (nat start) x @ v @ drop (nat (start + len)) x)
      else Undefined)"

text \<open>\<^verbatim>\<open>vec[uni] <- scalar\<close> (lvalue.hpp, lines 71 to 77).\<close>

definition assign_vec_uni :: "'a list \<Rightarrow> index_uni \<Rightarrow> 'a \<Rightarrow> 'a list outcome" where
  "assign_vec_uni x idxs y =
     (if \<not> check_range (int (length x)) (n idxs) then Raised OutOfRange x
      else Done (x[nat (n idxs - 1) := y]))"

text \<open>
  \<^verbatim>\<open>vec[multi] <- vec\<close> (lines 97 to 110). The loop checks and writes one position
  after the other; \<open>k\<close> is the loop variable \<^verbatim>\<open>n\<close>.
\<close>

function assign_vec_multi_loop ::
  "'a list \<Rightarrow> multi_index \<Rightarrow> 'a list \<Rightarrow> nat \<Rightarrow> 'a list outcome" where
  "assign_vec_multi_loop x idxs y k =
     (if k < length y then
        (let i = rvalue_at k idxs in
         if \<not> check_range (int (length x)) i then Raised OutOfRange x
         else assign_vec_multi_loop (x[nat (i - 1) := y ! k]) idxs y (Suc k))
      else Done x)"
  by pat_completeness auto
termination
  by (relation "measure (\<lambda>(x, idxs, y, k). length y - k)") auto

definition assign_vec_multi ::
  "'a list \<Rightarrow> multi_index \<Rightarrow> 'a list \<Rightarrow> 'a list outcome" where
  "assign_vec_multi x idxs y =
     (if \<not> check_size_match (rvalue_index_size idxs (int (length x))) (int (length y))
      then Raised SizeMismatch x
      else assign_vec_multi_loop x idxs y 0)"

text \<open>\<^verbatim>\<open>vec[min_max] <- vec\<close> (lines 129 to 149).\<close>

definition assign_vec_min_max ::
  "'a list \<Rightarrow> index_min_max \<Rightarrow> 'a list \<Rightarrow> 'a list outcome" where
  "assign_vec_min_max x idxs y =
     (if \<not> check_range (int (length x)) (idx_min idxs) then Raised OutOfRange x
      else if \<not> check_range (int (length x)) (idx_max idxs) then Raised OutOfRange x
      else if positive_idx idxs then
        (if \<not> check_size_match (idx_max idxs - 1) (int (length y))
         then Raised SizeMismatch x
         else segment_assign x (idx_min idxs - 1) (idx_max idxs - 1) y)
      else
        (if \<not> check_size_match (idx_min idxs - 1) (int (length y))
         then Raised SizeMismatch x
         else segment_assign x (idx_max idxs - 1) (idx_min idxs - 1) (rev y)))"

text \<open>
  What the multi-index loop has written once it has passed the first \<open>k\<close> positions:
  value element \<open>m\<close> at (0-based) position \<open>rvalue_at m idxs - 1\<close>, for \<open>m < k\<close> in order.
\<close>

definition written_prefix :: "'a list \<Rightarrow> multi_index \<Rightarrow> 'a list \<Rightarrow> nat \<Rightarrow> nat \<Rightarrow> 'a list" where
  "written_prefix x idxs y j k =
     foldl (\<lambda>x' m. x'[nat (rvalue_at m idxs - 1) := y ! m]) x [j..<k]"

section \<open>Matrices\<close>

text \<open>
  A dense matrix: its number of columns and its rows (the number of rows is the length
  of the list, so that a matrix without rows still has a column count, as in Eigen).
  Every row of a well-formed matrix has \<open>cols\<close> entries.
\<close>

datatype 'a matrix = Matrix (cols: nat) (row_list: "'a list list")

definition rows :: "'a matrix \<Rightarrow> nat" where
  "rows m = length (row_list m)"

definition wf_matrix :: "'a matrix \<Rightarrow> bool" where
  "wf_matrix m = list_all (\<lambda>r. length r = cols m) (row_list m)"

text \<open>
  \<^verbatim>\<open>x.row(i) = y\<close>: Eigen requires \<open>0 \<le> i < x.rows()\<close> and \<open>y.cols() = x.cols()\<close>.
\<close>

definition row_assign :: "'a matrix \<Rightarrow> int \<Rightarrow> 'a list \<Rightarrow> 'a matrix outcome" where
  "row_assign x i y =
     (if 0 \<le> i \<and> i < int (rows x) \<and> length y = cols x
      then Done (Matrix (cols x) ((row_list x)[nat i := y]))
      else Undefined)"

text \<open>\<^verbatim>\<open>mat[uni] = rowvec\<close> (lines 169 to 179).\<close>

definition assign_mat_uni :: "'a matrix \<Rightarrow> index_uni \<Rightarrow> 'a list \<Rightarrow> 'a matrix outcome" where
  "assign_mat_uni x idxs y =
     (if \<not> check_size_match (int (cols x)) (int (length y)) then Raised SizeMismatch x
      else if \<not> check_range (int (rows x)) (n idxs) then Raised OutOfRange x
      else row_assign x (n idxs - 1) y)"

text \<open>
  \<^verbatim>\<open>mat[uni,] = rowvec\<close> (lines 231 to 242); the index list is a single index
  followed by \<^verbatim>\<open>index_omni\<close>, which carries no data.
\<close>

definition assign_mat_uni_omni :: "'a matrix \<Rightarrow> index_uni \<Rightarrow> 'a list \<Rightarrow> 'a matrix outcome" where
  "assign_mat_uni_omni x idxs y =
     (if \<not> check_size_match (int (cols x)) (int (length y)) then Raised SizeMismatch x
      else row_assign x (n idxs - 1) y)"

section \<open>Dense linear algebra of the estimator\<close>

text \<open>
  The Eigen expressions that \<^verbatim>\<open>covariance\<close> and \<^verbatim>\<open>learn_metric\<close> are built from,
  on matrices of reals. Each is applied only where its operands have the shapes that
  Eigen requires.
\<close>

definition zero_matrix :: "nat \<Rightarrow> nat \<Rightarrow> real matrix" where
  "zero_matrix r c = Matrix c (replicate r (replicate c 0))"

definition identity_matrix :: "nat \<Rightarrow> nat \<Rightarrow> real matrix" where
  "identity_matrix r c =
     Matrix c (map (\<lambda>i. map (\<lambda>j. if i = j then 1 else 0) [0..<c]) [0..<r])"

text \<open>\<^verbatim>\<open>Y.colwise().mean()\<close>: the mean of every column.\<close>

definition colwise_mean :: "real matrix \<Rightarrow> real list" where
  "colwise_mean y = map (\<lambda>j. (\<Sum>r\<leftarrow>row_list y. r ! j) / real (rows y)) [0..<cols y]"

text \<open>\<^verbatim>\<open>Y.rowwise() - v\<close>: the row vector \<open>v\<close> subtracted from every row.\<close>

definition rowwise_minus :: "real matrix \<Rightarrow> real list \<Rightarrow> real matrix" where
  "rowwise_minus y v = Matrix (cols y) (map (\<lambda>r. map2 (-) r v) (row_list y))"

definition transpose_matrix :: "real matrix \<Rightarrow> real matrix" where
  "transpose_matrix a =
     Matrix (rows a) (map (\<lambda>j. map (\<lambda>r. r ! j) (row_list a)) [0..<cols a])"

definition matrix_product :: "real matrix \<Rightarrow> real matrix \<Rightarrow> real matrix" where
  "matrix_product a b =
     Matrix (cols b)
       (map (\<lambda>ra. map (\<lambda>j. \<Sum>k\<leftarrow>[0..<cols a]. ra ! k * (row_list b ! k) ! j) [0..<cols b])
          (row_list a))"

text \<open>
  \<^verbatim>\<open>a / s\<close>, every entry divided by the scalar: \<open>None\<close> when the scalar is zero,
  where the entries of the quotient are infinities or NaN.
\<close>

definition matrix_divide :: "real matrix \<Rightarrow> real \<Rightarrow> real matrix option" where
  "matrix_divide a s =
     (if s = 0 then None else Some (Matrix (cols a) (map (map (\<lambda>e. e / s)) (row_list a))))"

definition scalar_times :: "real \<Rightarrow> real matrix \<Rightarrow> real matrix" where
  "scalar_times s a = Matrix (cols a) (map (map (\<lambda>e. s * e)) (row_list a))"

definition matrix_plus :: "real matrix \<Rightarrow> real matrix \<Rightarrow> real matrix" where
  "matrix_plus a b = Matrix (cols a) (map2 (map2 (+)) (row_list a) (row_list b))"

text \<open>\<^verbatim>\<open>a.diagonal()\<close> and \<^verbatim>\<open>d.asDiagonal()\<close>.\<close>

definition diagonal :: "real matrix \<Rightarrow> real list" where
  "diagonal a = map (\<lambda>i. (row_list a ! i) ! i) [0..<min (rows a) (cols a)]"

definition asDiagonal :: "real list \<Rightarrow> real matrix" where
  "asDiagonal d =
     Matrix (length d)
       (map (\<lambda>i. map (\<lambda>j. if i = j then d ! i else 0) [0..<length d]) [0..<length d])"

text \<open>
  \<^verbatim>\<open>a.block(r0, c0, nr, nc)\<close> read as a value: Eigen requires the block to lie inside
  the matrix.
\<close>

definition block :: "real matrix \<Rightarrow> int \<Rightarrow> int \<Rightarrow> int \<Rightarrow> int \<Rightarrow> real matrix option" where
  "block a r0 c0 nr nc =
     (if 0 \<le> r0 \<and> 0 \<le> c0 \<and> 0 \<le> nr \<and> 0 \<le> nc
         \<and> r0 + nr \<le> int (rows a) \<and> c0 + nc \<le> int (cols a)
      then Some (Matrix (nat nc)
                  (map (\<lambda>r. take (nat nc) (drop (nat c0) r))
                     (take (nat nr) (drop (nat r0) (row_list a)))))
      else None)"

text \<open>\<^verbatim>\<open>a.col(c).transpose()\<close>: Eigen requires \<open>0 \<le> c < a.cols()\<close>.\<close>

definition col_transpose :: "real matrix \<Rightarrow> int \<Rightarrow> real list option" where
  "col_transpose a c =
     (if 0 \<le> c \<and> c < int (cols a) then Some (map (\<lambda>r. r ! nat c) (row_list a)) else None)"

text \<open>
  \<^verbatim>\<open>a.block(r, 0, 1, nc) = v\<close>: Eigen requires the block to lie inside the matrix and
  \<open>v\<close> to have \<open>nc\<close> entries.
\<close>

definition block_row_assign ::
  "real matrix \<Rightarrow> int \<Rightarrow> nat \<Rightarrow> real list \<Rightarrow> real matrix option" where
  "block_row_assign a r nc v =
     (if 0 \<le> r \<and> r < int (rows a) \<and> nc \<le> cols a \<and> length v = nc
      then Some (Matrix (cols a)
                  ((row_list a)[nat r := v @ drop nc (row_list a ! nat r)]))
      else None)"

section \<open>The covariance estimator\<close>

text \<open>
  \<^verbatim>\<open>stan::math::check_nonzero_size\<close> belongs to the validation layer, which is not
  part of the sources at hand: it throws \<^verbatim>\<open>std::invalid_argument\<close> for a container
  whose \<^verbatim>\<open>size()\<close>, here rows times columns, is zero. \<open>check_nonzero_size y\<close> is
  true when the check passes.
\<close>

definition check_nonzero_size :: "'a matrix \<Rightarrow> bool" where
  "check_nonzero_size y = (rows y * cols y \<noteq> 0)"

text \<open>
  \<^verbatim>\<open>internal::covariance\<close> (lines 621 to 626). The mean divides by the number of
  rows, which is not zero once the size check has passed.
\<close>

definition covariance :: "real matrix \<Rightarrow> real matrix result" where
  "covariance y =
     (if \<not> check_nonzero_size y then Throws ZeroSize
      else
        (let centered = rowwise_minus y (colwise_mean y)
         in case matrix_divide (matrix_product (transpose_matrix centered) centered)
                   (max (real (rows centered) - 1) 1) of
              None \<Rightarrow> NotFinite
            | Some c \<Rightarrow> Returns c))"

section \<open>Power iteration\<close>

text \<open>
  The scalar type is a type variable with the operations of \<^verbatim>\<open>double\<close> that the code
  uses; the square root is a parameter \<open>sq\<close>. \<open>sum_products v w\<close> is the sum of the
  products of the entries of two vectors of one size.
\<close>

definition sum_products :: "('s::{zero,plus,times}) list \<Rightarrow> 's list \<Rightarrow> 's" where
  "sum_products v w = foldr (+) (map2 (*) v w) 0"

text \<open>\<^verbatim>\<open>v.dot(w)\<close>: Eigen requires the two vectors to have the same size.\<close>

definition dot :: "('s::{zero,plus,times}) list \<Rightarrow> 's list \<Rightarrow> 's option" where
  "dot v w = (if length v = length w then Some (sum_products v w) else None)"

text \<open>\<^verbatim>\<open>v.norm()\<close>: the square root of the sum of the squares.\<close>

definition norm_with :: "('s \<Rightarrow> 's) \<Rightarrow> ('s::{zero,plus,times}) list \<Rightarrow> 's" where
  "norm_with sq v = sq (sum_products v v)"

text \<open>
  The loop of \<^verbatim>\<open>internal::power_method\<close> (lines 652 to 669). The result is the
  returned estimate together with the values that the reference parameters
  \<^verbatim>\<open>max_iterations\<close> and \<^verbatim>\<open>tol\<close> hold on return. The operator \<open>f\<close> is a function of
  its argument that returns. The sizes of \<^verbatim>\<open>v\<close> and \<^verbatim>\<open>Av\<close> are checked once, before
  the loop; when a later product has another size than its argument, the next
  \<^verbatim>\<open>v.dot(Av)\<close> violates Eigen's precondition.
\<close>

function power_method_loop ::
  "('s \<Rightarrow> 's) \<Rightarrow> ('s list \<Rightarrow> 's list) \<Rightarrow> int \<Rightarrow> 's \<Rightarrow> 's list \<Rightarrow> 's list \<Rightarrow> 's \<Rightarrow> int \<Rightarrow>
   (('s::{zero,plus,minus,times,inverse,abs,ord}) \<times> int \<times> 's) result" where
  "power_method_loop sq f max_iterations tol v Av eval i =
     (if i < max_iterations then
        (let v_norm = norm_with sq v in
         case dot v Av of
           None \<Rightarrow> Undef
         | Some d \<Rightarrow>
            (let new_eval = d / (v_norm * v_norm)
             in if i = max_iterations - 1 \<or> \<bar>new_eval - eval\<bar> \<le> tol * \<bar>eval\<bar>
                then Returns (new_eval, i + 1, \<bar>new_eval - eval\<bar> / \<bar>eval\<bar>)
                else (let v' = map (\<lambda>e. e / norm_with sq Av) Av
                      in power_method_loop sq f max_iterations tol v' (f v') new_eval
                           (i + 1))))
      else Returns (eval, max_iterations, tol))"
  by pat_completeness auto
termination
  by (relation "measure (\<lambda>(sq, f, max_iterations, tol, v, Av, eval, i).
                   nat (max_iterations - i))")
    auto

text \<open>
  \<^verbatim>\<open>internal::power_method\<close> (lines 645 to 670); \<^verbatim>\<open>check_matching_sizes\<close> throws
  \<^verbatim>\<open>std::invalid_argument\<close> when the two vectors differ in size.
\<close>

definition power_method ::
  "('s \<Rightarrow> 's) \<Rightarrow> ('s list \<Rightarrow> 's list) \<Rightarrow> 's list \<Rightarrow> int \<Rightarrow> 's \<Rightarrow>
   (('s::{zero,plus,minus,times,inverse,abs,ord}) \<times> int \<times> 's) result" where
  "power_method sq f initial_guess max_iterations tol =
     (let v = initial_guess; Av = f v
      in if length Av \<noteq> length v then Throws SizeMismatch
         else power_method_loop sq f max_iterations tol v Av 0 0)"

section \<open>The adaptive metric estimator\<close>

text \<open>
  The fields of \<^verbatim>\<open>mpi_auto_adaptation\<close> that \<^verbatim>\<open>collect_draws\<close> and
  \<^verbatim>\<open>learn_metric\<close> use (without the trailing underscore of the source). The
  constructor allocates matrices with \<^verbatim>\<open>n_params\<close> rows or columns, so that
  \<^verbatim>\<open>n_params_\<close> is never negative: it is a natural number here. The MPI request
  handles \<^verbatim>\<open>reqs\<close> are represented by the schedule of completions below; \<open>draws\<close>
  holds the gather buffers with the contents they have when their request completes.
\<close>

record adaptation =
  num_chains :: int
  n_params :: nat
  window_size :: int
  init_buffer :: int
  draw_req_counter :: int
  draws_collected_counter :: int
  last_qs :: "real list list"
  draws :: "real matrix list"
  Y :: "real matrix"
  is_diagonal :: bool

text \<open>
  The inner loop of \<^verbatim>\<open>collect_draws\<close> (lines 892 to 895): the column of every chain
  of the gathered buffer \<open>index\<close> goes to its row of \<open>Y\<close>. \<open>None\<close> when an access is
  out of bounds.
\<close>

function scatter_chains :: "adaptation \<Rightarrow> int \<Rightarrow> int \<Rightarrow> adaptation option" where
  "scatter_chains st index chain =
     (if chain < num_chains st then
        (if 0 \<le> index \<and> index < int (length (draws st)) then
           (case col_transpose (draws st ! nat index) chain of
              None \<Rightarrow> None
            | Some draw \<Rightarrow>
               (case block_row_assign (Y st)
                       ((draws_collected_counter st + index) * num_chains st + chain)
                       (n_params st) draw of
                  None \<Rightarrow> None
                | Some Y' \<Rightarrow> scatter_chains (st\<lparr>Y := Y'\<rparr>) index (chain + 1)))
         else None)
      else Some st)"
  by pat_completeness auto
termination
proof (relation "measure (\<lambda>(st, index, chain). nat (num_chains st - chain))")
  show "wf (measure (\<lambda>(st, index, chain). nat (num_chains st - chain)))"
    by simp
next
  fix st :: adaptation and index chain :: int and draw Y'
  assume "chain < num_chains st"
  then show "((st\<lparr>Y := Y'\<rparr>, index, chain + 1), st, index, chain)
               \<in> measure (\<lambda>(st, index, chain). nat (num_chains st - chain))"
    by simp
qed

text \<open>
  The polling loop of \<^verbatim>\<open>collect_draws\<close> (lines 888 to 897). What \<^verbatim>\<open>MPI_Testany\<close>
  answers is given from outside, one entry per call: \<open>None\<close> when no request has
  completed (\<^verbatim>\<open>flag\<close> is 0), \<open>Some index\<close> when request \<open>index\<close> has. The loop has no
  exit of its own while requests are outstanding: when the schedule ends first, the
  call is \<open>Blocked\<close>.
\<close>

fun collect_loop :: "int option list \<Rightarrow> adaptation \<Rightarrow> int \<Rightarrow> adaptation result" where
  "collect_loop polls st finished =
     (if finished < draw_req_counter st then
        (case polls of
           [] \<Rightarrow> Blocked
         | None # polls' \<Rightarrow> collect_loop polls' st finished
         | Some index # polls' \<Rightarrow>
            (case scatter_chains st index 0 of
               None \<Rightarrow> Undef
             | Some st' \<Rightarrow> collect_loop polls' st' (finished + 1)))
      else Returns st)"

definition reset_req :: "adaptation \<Rightarrow> adaptation" where
  "reset_req st = st\<lparr>draw_req_counter := 0\<rparr>"

text \<open>\<^verbatim>\<open>collect_draws\<close> (lines 883 to 902).\<close>

definition collect_draws :: "int option list \<Rightarrow> adaptation \<Rightarrow> adaptation result" where
  "collect_draws polls st =
     (case collect_loop polls st 0 of
        Returns st' \<Rightarrow>
          Returns (reset_req
            (st'\<lparr>draws_collected_counter := draws_collected_counter st' + draw_req_counter st'\<rparr>))
      | Throws e \<Rightarrow> Throws e
      | Undef \<Rightarrow> Undef
      | Blocked \<Rightarrow> Blocked
      | NotFinite \<Rightarrow> NotFinite)"

text \<open>
  The two passes of \<^verbatim>\<open>learn_metric\<close>, which the source tells apart by comparing the
  loop variable with the string \<^verbatim>\<open>"selection"\<close>.
\<close>

datatype pass = Selection | Refinement

text \<open>The local variables of a pass once both candidates are formed (line 834).\<close>

record candidates =
  Ntest :: int
  cov_train :: "real matrix"
  cov_test :: "real matrix"
  dense :: "real matrix"
  diag :: "real matrix"

text \<open>Lines 831 to 834: the dense candidate and its diagonal.\<close>

definition make_candidates :: "int \<Rightarrow> int \<Rightarrow> real matrix \<Rightarrow> real matrix \<Rightarrow> candidates" where
  "make_candidates num_draws ntest ctrain ctest =
     (let dense' =
            matrix_plus
              (scalar_times
                 (real_of_int (num_draws - ntest) / (real_of_int (num_draws - ntest) + 5))
                 ctrain)
              (scalar_times (1 / 1000 * (5 / (real_of_int (num_draws - ntest) + 5)))
                 (identity_matrix (rows ctrain) (cols ctrain)))
      in \<lparr>Ntest = ntest, cov_train = ctrain, cov_test = ctest, dense = dense',
          diag = asDiagonal (diagonal dense')\<rparr>)"

text \<open>
  Lines 807 to 834 of one pass. \<^verbatim>\<open>int(0.2 * num_draws)\<close> truncates a product that is
  never negative, so it is its floor.
\<close>

definition pass_candidates :: "adaptation \<Rightarrow> int \<Rightarrow> int \<Rightarrow> pass \<Rightarrow> candidates result" where
  "pass_candidates st first_draw num_draws state =
     (let M = n_params st in
      case state of
        Selection \<Rightarrow>
          (let t = \<lfloor>0.2 * real_of_int num_draws\<rfloor>;
               ntest = (if t < 5 then 5 else t)
           in if num_draws < 10 then Throws InsufficientSamples
              else
                (case block (Y st) first_draw 0 (num_draws - ntest) (int (n_params st)) of
                   None \<Rightarrow> Undef
                 | Some Ytrain \<Rightarrow>
                    (case block (Y st) (first_draw + num_draws - ntest) 0 ntest
                            (int (n_params st)) of
                       None \<Rightarrow> Undef
                     | Some Ytest \<Rightarrow>
                        (case covariance Ytrain of
                           Returns ctrain \<Rightarrow>
                             (case covariance Ytest of
                                Returns ctest \<Rightarrow>
                                  Returns (make_candidates num_draws ntest ctrain ctest)
                              | Throws e \<Rightarrow> Throws e
                              | Undef \<Rightarrow> Undef
                              | Blocked \<Rightarrow> Blocked
                              | NotFinite \<Rightarrow> NotFinite)
                         | Throws e \<Rightarrow> Throws e
                         | Undef \<Rightarrow> Undef
                         | Blocked \<Rightarrow> Blocked
                         | NotFinite \<Rightarrow> NotFinite))))
      | Refinement \<Rightarrow>
          (case block (Y st) first_draw 0 num_draws (int (n_params st)) of
             None \<Rightarrow> Undef
           | Some Ytrain \<Rightarrow>
              (case covariance Ytrain of
                 Returns ctrain \<Rightarrow>
                   Returns (make_candidates num_draws 0 ctrain (zero_matrix M M))
               | Throws e \<Rightarrow> Throws e
               | Undef \<Rightarrow> Undef
               | Blocked \<Rightarrow> Blocked
               | NotFinite \<Rightarrow> NotFinite)))"

text \<open>
  The body of the \<^verbatim>\<open>try\<close> block (lines 805 to 872): the selection pass, then the
  refinement pass; the result is the metric and the flag \<^verbatim>\<open>is_diagonal_\<close> that the
  refinement pass stores. The comparison of the two candidates on the held-out
  covariance and the retained draws (lines 838 to 862) runs Eigen's Cholesky
  factorisation, power iterations from random start vectors and the gradient of the
  model's log density, none of which is a function of values at hand: it is the parameter
  \<open>select\<close>, which answers \<^verbatim>\<open>use_dense\<close> or throws.
\<close>

definition try_passes ::
  "(candidates \<Rightarrow> real list list \<Rightarrow> bool result) \<Rightarrow> adaptation \<Rightarrow> int \<Rightarrow> int \<Rightarrow>
   (real matrix \<times> bool) result" where
  "try_passes select st first_draw num_draws =
     (case pass_candidates st first_draw num_draws Selection of
        Returns c1 \<Rightarrow>
          (case select c1 (last_qs st) of
             Returns use_dense \<Rightarrow>
               (case pass_candidates st first_draw num_draws Refinement of
                  Returns c2 \<Rightarrow>
                    Returns (if use_dense then (dense c2, False) else (diag c2, True))
                | Throws e \<Rightarrow> Throws e
                | Undef \<Rightarrow> Undef
                | Blocked \<Rightarrow> Blocked
                | NotFinite \<Rightarrow> NotFinite)
           | Throws e \<Rightarrow> Throws e
           | Undef \<Rightarrow> Undef
           | Blocked \<Rightarrow> Blocked
           | NotFinite \<Rightarrow> NotFinite)
      | Throws e \<Rightarrow> Throws e
      | Undef \<Rightarrow> Undef
      | Blocked \<Rightarrow> Blocked
      | NotFinite \<Rightarrow> NotFinite)"

text \<open>The handler (lines 873 to 880).\<close>

definition fallback_metric :: "nat \<Rightarrow> int \<Rightarrow> real matrix" where
  "fallback_metric M num_draws =
     (let cov = zero_matrix M M
      in asDiagonal
           (map2 (+)
              (map (\<lambda>e. (real_of_int num_draws / (real_of_int num_draws + 5)) * e)
                 (diagonal cov))
              (map (\<lambda>e. 1 / 1000 * (5 / (real_of_int num_draws + 5)) * e)
                 (replicate (cols cov) 1))))"

text \<open>Lines 798 and 799.\<close>

definition first_draw_of :: "adaptation \<Rightarrow> int \<Rightarrow> int" where
  "first_draw_of st win =
     num_chains st * (max (win - 1) 0 * window_size st
                      + (if win > 0 then 1 else 0) * (window_size st - init_buffer st))"

definition num_draws_of :: "adaptation \<Rightarrow> int \<Rightarrow> int" where
  "num_draws_of st win =
     max (num_chains st * draws_collected_counter st - first_draw_of st win) 0"

text \<open>
  \<^verbatim>\<open>learn_metric\<close> (lines 793 to 881). The reference parameter \<^verbatim>\<open>covar\<close> is written
  on every path that returns and never read, so it is a result only; the handler catches
  \<^verbatim>\<open>std::exception\<close>, from which every \<open>error\<close> derives.
\<close>

definition learn_metric ::
  "(candidates \<Rightarrow> real list list \<Rightarrow> bool result) \<Rightarrow> int option list \<Rightarrow> adaptation \<Rightarrow> int \<Rightarrow>
   (real matrix \<times> adaptation) result" where
  "learn_metric select polls st0 win =
     (case collect_draws polls st0 of
        Returns st \<Rightarrow>
          (let first_draw = first_draw_of st win;
               num_draws = num_draws_of st win;
               M = n_params st
           in case try_passes select st first_draw num_draws of
                Returns (covar, d) \<Rightarrow> Returns (covar, st\<lparr>is_diagonal := d\<rparr>)
              | Throws e \<Rightarrow>
                  Returns (fallback_metric M num_draws, st\<lparr>is_diagonal := True\<rparr>)
              | Undef \<Rightarrow> Undef
              | Blocked \<Rightarrow> Blocked
              | NotFinite \<Rightarrow> NotFinite)
      | Throws e \<Rightarrow> Throws e
      | Undef \<Rightarrow> Undef
      | Blocked \<Rightarrow> Blocked
      | NotFinite \<Rightarrow> NotFinite)"

section \<open>Notions of the specification\<close>

text \<open>
  The shrinkage of a covariance estimate \<open>c\<close> with weight \<open>k\<close>, entry by entry:
  \<open>k / (k + 5)\<close> times \<open>c\<close> plus \<open>1 / 1000 * (5 / (k + 5))\<close> times the identity.
\<close>

definition shrinkage :: "nat \<Rightarrow> real matrix \<Rightarrow> real matrix" where
  "shrinkage k c =
     Matrix (cols c)
       (map (\<lambda>i. map (\<lambda>j. real k / (real k + 5) * (row_list c ! i ! j)
                          + (if i = j then 1 / 1000 * (5 / (real k + 5)) else 0))
                 [0..<cols c])
          [0..<rows c])"

text \<open>The diagonal projection of a matrix: its diagonal kept, every other entry zero.\<close>

definition diagonal_projection :: "real matrix \<Rightarrow> real matrix" where
  "diagonal_projection d =
     Matrix (cols d)
       (map (\<lambda>i. map (\<lambda>j. if i = j then row_list d ! i ! i else 0) [0..<cols d])
          [0..<rows d])"

definition square :: "nat \<Rightarrow> real matrix \<Rightarrow> bool" where
  "square m a = (cols a = m \<and> rows a = m \<and> wf_matrix a)"

text \<open>
  The size of the held-out tail of a pass: a fifth of the usable draws and at least five
  in the selection pass, nothing in the refinement pass.
\<close>

definition held_out :: "pass \<Rightarrow> int \<Rightarrow> int" where
  "held_out state num_draws =
     (case state of Selection \<Rightarrow> max 5 (num_draws div 5) | Refinement \<Rightarrow> 0)"







section \<open>Example data\<close>


definition shrinking :: "real list \<Rightarrow> real list" where
  "shrinking v = (if v = [2, 0] then v else [1])"

text \<open>
  An estimator of two chains and one parameter that has collected five draws of each
  chain, and has no request outstanding.
\<close>

definition ten_draws :: adaptation where
  "ten_draws =
     \<lparr>num_chains = 2, n_params = 1, window_size = 5, init_buffer = 0,
      draw_req_counter = 0, draws_collected_counter = 5, last_qs = [[9], [10]],
      draws = [],
      Y = Matrix 1 [[1], [2], [3], [4], [5], [6], [7], [8], [9], [10]],
      is_diagonal = False\<rparr>"

text \<open>
  An estimator of four chains and one parameter with two gathers outstanding, and the same
  estimator once both have been collected.
\<close>

definition eight_draws :: adaptation where
  "eight_draws =
     \<lparr>num_chains = 4, n_params = 1, window_size = 2, init_buffer = 0,
      draw_req_counter = 2, draws_collected_counter = 0, last_qs = [[4], [8]],
      draws = [Matrix 4 [[1, 2, 3, 4]], Matrix 4 [[5, 6, 7, 8]]],
      Y = Matrix 1 [[0], [0], [0], [0], [0], [0], [0], [0]],
      is_diagonal = False\<rparr>"

definition eight_draws_collected :: adaptation where
  "eight_draws_collected =
     \<lparr>num_chains = 4, n_params = 1, window_size = 2, init_buffer = 0,
      draw_req_counter = 0, draws_collected_counter = 2, last_qs = [[4], [8]],
      draws = [Matrix 4 [[1, 2, 3, 4]], Matrix 4 [[5, 6, 7, 8]]],
      Y = Matrix 1 [[1], [2], [3], [4], [5], [6], [7], [8]],
      is_diagonal = False\<rparr>"

declare power_method_loop.simps [simp del]

section \<open>Properties of indexed assignment\<close>

lemma length_written_prefix: "length (written_prefix x idxs y j k) = length x"
proof -
  have "length (foldl (\<lambda>x' m. x'[nat (rvalue_at m idxs - 1) := y ! m]) x ms) = length x"
    for ms
    by (induction ms arbitrary: x) simp_all
  then show ?thesis
    by (simp add: written_prefix_def)
qed

lemma written_prefix_step:
  "j < k \<Longrightarrow>
   written_prefix x idxs y j k =
     written_prefix (x[nat (rvalue_at j idxs - 1) := y ! j]) idxs y (Suc j) k"
  by (simp add: written_prefix_def upt_conv_Cons)

lemma written_prefix_untouched:
  "p \<notin> (\<lambda>m. nat (rvalue_at m idxs - 1)) ` {j..<k} \<Longrightarrow>
   written_prefix x idxs y j k ! p = x ! p"
proof (induction "k - j" arbitrary: j x)
  case 0
  then show ?case by (simp add: written_prefix_def)
next
  case (Suc d)
  then have jk: "j < k" by simp
  have here: "p \<noteq> nat (rvalue_at j idxs - 1)"
    using Suc.prems jk by auto
  have rest: "p \<notin> (\<lambda>m. nat (rvalue_at m idxs - 1)) ` {Suc j..<k}"
    using Suc.prems by auto
  have "d = k - Suc j" using Suc.hyps(2) by simp
  from Suc.hyps(1) [OF this rest]
  have "written_prefix (x[nat (rvalue_at j idxs - 1) := y ! j]) idxs y (Suc j) k ! p
          = (x[nat (rvalue_at j idxs - 1) := y ! j]) ! p" .
  with here show ?case
    by (simp add: written_prefix_step [OF jk])
qed

lemma assign_vec_multi_loop_raises:
  "j \<le> k \<Longrightarrow> k < length y \<Longrightarrow>
   (\<forall>m. j \<le> m \<and> m < k \<longrightarrow> check_range (int (length x)) (rvalue_at m idxs)) \<Longrightarrow>
   \<not> check_range (int (length x)) (rvalue_at k idxs) \<Longrightarrow>
   assign_vec_multi_loop x idxs y j = Raised OutOfRange (written_prefix x idxs y j k)"
proof (induction x idxs y j rule: assign_vec_multi_loop.induct)
  case (1 x idxs y j)
  show ?case
  proof (cases "j = k")
    case True
    with "1.prems" show ?thesis
      by (simp add: written_prefix_def)
  next
    case False
    with "1.prems" have jk: "j < k" by simp
    with "1.prems" have jy: "j < length y" by simp
    have ok: "check_range (int (length x)) (rvalue_at j idxs)"
      using "1.prems" jk by simp
    let ?x' = "x[nat (rvalue_at j idxs - 1) := y ! j]"
    have "assign_vec_multi_loop ?x' idxs y (Suc j)
            = Raised OutOfRange (written_prefix ?x' idxs y (Suc j) k)"
      using "1.IH" [OF jy refl] ok "1.prems" jk by simp
    then show ?thesis
      using jy ok by (simp add: written_prefix_step [OF jk])
  qed
qed

text \<open>
  C1. A min-max range assignment on a vector should require the value to have as many
  entries as the range addresses, \<open>max - min + 1\<close> when ascending and \<open>min - max + 1\<close>
  when reversed, and then write the value into that range. The code compares the length
  of the value with \<open>max - 1\<close> (ascending) and \<open>min - 1\<close> (reversed) instead, and takes
  a segment of that length. On \<open>[1,2,3,4,5]\<close> with the ascending range from 1 to 3 it
  rejects the three-entry value that fits the range, and accepts a two-entry value, of
  which it writes positions 1 and 2; with the reversed range from 3 down to 1 it rejects
  the three-entry value as well. With the ascending range from 3 to 5 it rejects the
  three-entry value, and the four-entry value that passes its check makes the segment
  run past the end of the vector.
\<close>

theorem assign_vec_min_max_size_check:
  "assign_vec_min_max [1, 2, 3, 4, 5 :: real]
      \<lparr>idx_min = 1, idx_max = 3, positive_idx = True\<rparr> [10, 20, 30]
     = Raised SizeMismatch [1, 2, 3, 4, 5]
   \<and> assign_vec_min_max [1, 2, 3, 4, 5 :: real]
      \<lparr>idx_min = 1, idx_max = 3, positive_idx = True\<rparr> [10, 20]
     = Done [10, 20, 3, 4, 5]
   \<and> assign_vec_min_max [1, 2, 3, 4, 5 :: real]
      \<lparr>idx_min = 3, idx_max = 1, positive_idx = False\<rparr> [10, 20, 30]
     = Raised SizeMismatch [1, 2, 3, 4, 5]
   \<and> assign_vec_min_max [1, 2, 3, 4, 5 :: real]
      \<lparr>idx_min = 3, idx_max = 5, positive_idx = True\<rparr> [10, 20, 30]
     = Raised SizeMismatch [1, 2, 3, 4, 5]
   \<and> assign_vec_min_max [1, 2, 3, 4, 5 :: real]
      \<lparr>idx_min = 3, idx_max = 5, positive_idx = True\<rparr> [10, 20, 30, 40]
     = Undefined"
  by (simp add: assign_vec_min_max_def check_range_def check_size_match_def
      segment_assign_def)

text \<open>
  C2. Assigning \<open>[10,20,30]\<close> to \<open>[1,2,3,4,5]\<close> through the ascending min-max index
  \<open>(2,4)\<close> yields \<open>[1,10,20,30,5]\<close>; through the reversed min-max index with
  \<open>min = 4\<close>, \<open>max = 2\<close> it yields \<open>[1,30,20,10,5]\<close>.
\<close>

theorem assign_vec_min_max_scenario:
  "assign_vec_min_max [1, 2, 3, 4, 5 :: real]
      \<lparr>idx_min = 2, idx_max = 4, positive_idx = True\<rparr> [10, 20, 30]
     = Done [1, 10, 20, 30, 5]
   \<and> assign_vec_min_max [1, 2, 3, 4, 5 :: real]
      \<lparr>idx_min = 4, idx_max = 2, positive_idx = False\<rparr> [10, 20, 30]
     = Done [1, 30, 20, 10, 5]"
  by (simp add: assign_vec_min_max_def check_range_def check_size_match_def
      segment_assign_def)

text \<open>
  C4, as stated, fails: an out-of-range position does not always leave the target
  unmodified. The multi-index \<open>[1, 5]\<close> on \<open>[1,2,3]\<close> with the value \<open>[10,20]\<close> raises
  OutOfRange at its second position, after the first position has been written.
\<close>

theorem assign_vec_multi_partial_write:
  "assign_vec_multi [1, 2, 3 :: real] (index_multi [1, 5]) [10, 20]
     = Raised OutOfRange [10, 2, 3]
   \<and> [10, 2, 3] \<noteq> [1, 2, 3 :: real]"
  by (simp add: assign_vec_multi_def check_range_def check_size_match_def)

text \<open>
  C4, amended. A single index on a vector that is 0, negative or greater than the size
  raises OutOfRange and leaves the target unmodified. A multi-index assignment on a
  vector whose value has as many entries as there are positions, and whose position \<open>k\<close>
  (from 0) is the first out of range, raises OutOfRange; the target then holds the writes
  of the \<open>k\<close> positions before it and is unchanged everywhere else, with its length
  unchanged, and it is unmodified when the first position already is out of range.
\<close>

theorem assign_out_of_range:
  "(i < 1 \<or> int (length x) < i \<longrightarrow>
      assign_vec_uni x (index_uni i) v = Raised OutOfRange x)
   \<and> (rvalue_index_size idxs (int (length x)) = int (length y)
        \<and> k < length y
        \<and> (\<forall>m<k. 1 \<le> rvalue_at m idxs \<and> rvalue_at m idxs \<le> int (length x))
        \<and> (rvalue_at k idxs < 1 \<or> int (length x) < rvalue_at k idxs) \<longrightarrow>
      assign_vec_multi x idxs y = Raised OutOfRange (written_prefix x idxs y 0 k)
      \<and> length (written_prefix x idxs y 0 k) = length x
      \<and> (\<forall>p. p \<notin> (\<lambda>m. nat (rvalue_at m idxs - 1)) ` {0..<k} \<longrightarrow>
             written_prefix x idxs y 0 k ! p = x ! p)
      \<and> (k = 0 \<longrightarrow> written_prefix x idxs y 0 k = x))"
proof (intro conjI impI)
  assume "i < 1 \<or> int (length x) < i"
  then show "assign_vec_uni x (index_uni i) v = Raised OutOfRange x"
    by (auto simp add: assign_vec_uni_def check_range_def)
next
  assume h: "rvalue_index_size idxs (int (length x)) = int (length y)
        \<and> k < length y
        \<and> (\<forall>m<k. 1 \<le> rvalue_at m idxs \<and> rvalue_at m idxs \<le> int (length x))
        \<and> (rvalue_at k idxs < 1 \<or> int (length x) < rvalue_at k idxs)"
  then have before:
    "\<forall>m. 0 \<le> m \<and> m < k \<longrightarrow> check_range (int (length x)) (rvalue_at m idxs)"
    by (simp add: check_range_def)
  from h have at: "\<not> check_range (int (length x)) (rvalue_at k idxs)"
    by (auto simp add: check_range_def)
  from h have ky: "k < length y" by simp
  have "assign_vec_multi_loop x idxs y 0 = Raised OutOfRange (written_prefix x idxs y 0 k)"
    by (rule assign_vec_multi_loop_raises [OF le0 ky before at])
  with h show "assign_vec_multi x idxs y = Raised OutOfRange (written_prefix x idxs y 0 k)"
    by (simp add: assign_vec_multi_def check_size_match_def)
  show "length (written_prefix x idxs y 0 k) = length x"
    by (rule length_written_prefix)
  show "\<forall>p. p \<notin> (\<lambda>m. nat (rvalue_at m idxs - 1)) ` {0..<k} \<longrightarrow>
             written_prefix x idxs y 0 k ! p = x ! p"
    using written_prefix_untouched by blast
next
  assume "k = 0"
  then show "written_prefix x idxs y 0 k = x"
    by (simp add: written_prefix_def)
qed

text \<open>
  The amended C4 at position 0 of \<open>[1,2,3]\<close>, and at the multi-index \<open>[1, 5]\<close> with
  the value \<open>[10,20]\<close>, whose second position is the first out of range.
\<close>

theorem assign_out_of_range_witness:
  "((0::int) < 1 \<or> int (length [1, 2, 3 :: real]) < 0)
   \<and> assign_vec_uni [1, 2, 3 :: real] (index_uni 0) 9 = Raised OutOfRange [1, 2, 3]
   \<and> rvalue_index_size (index_multi [1, 5]) (int (length [1, 2, 3 :: real]))
       = int (length [10, 20 :: real])
   \<and> (1::nat) < length [10, 20 :: real]
   \<and> 1 \<le> rvalue_at 0 (index_multi [1, 5])
   \<and> rvalue_at 0 (index_multi [1, 5]) \<le> int (length [1, 2, 3 :: real])
   \<and> (rvalue_at 1 (index_multi [1, 5]) < 1
         \<or> int (length [1, 2, 3 :: real]) < rvalue_at 1 (index_multi [1, 5]))
   \<and> assign_vec_multi [1, 2, 3 :: real] (index_multi [1, 5]) [10, 20]
       = Raised OutOfRange (written_prefix [1, 2, 3] (index_multi [1, 5]) [10, 20] 0 1)
   \<and> written_prefix [1, 2, 3 :: real] (index_multi [1, 5]) [10, 20] 0 1 = [10, 2, 3]"
  using assign_out_of_range [of 0 "[1, 2, 3 :: real]" 9 "index_multi [1, 5]" "[10, 20]" 1]
  by (simp add: written_prefix_def)

text \<open>
  C5. A multi-index assignment on a vector whose number of resolved positions differs
  from the length of the value raises SizeMismatch before any write: the target is
  unmodified.
\<close>

theorem assign_vec_multi_size_mismatch:
  "rvalue_index_size idxs (int (length x)) \<noteq> int (length y) \<Longrightarrow>
   assign_vec_multi x idxs y = Raised SizeMismatch x"
  by (simp add: assign_vec_multi_def check_size_match_def)

text \<open>C5 at two positions against a value of one entry.\<close>

theorem assign_vec_multi_size_mismatch_witness:
  "rvalue_index_size (index_multi [1, 2]) (int (length [1, 2, 3 :: real]))
     \<noteq> int (length [10 :: real])
   \<and> assign_vec_multi [1, 2, 3 :: real] (index_multi [1, 2]) [10]
       = Raised SizeMismatch [1, 2, 3]"
proof -
  have h: "rvalue_index_size (index_multi [1, 2]) (int (length [1, 2, 3 :: real]))
             \<noteq> int (length [10 :: real])"
    by simp
  from assign_vec_multi_size_mismatch [OF h] h show ?thesis by simp
qed

text \<open>
  C9. For a vector \<open>x\<close> and a single index \<open>i\<close> in \<open>[1, size]\<close>, the assignment
  returns; the element read back at position \<open>i\<close> (entry \<open>i - 1\<close> from 0) is the
  assigned value, every other element is unchanged, and so is the size.
\<close>

theorem assign_vec_uni_round_trip:
  "1 \<le> i \<Longrightarrow> i \<le> int (length x) \<Longrightarrow>
   \<exists>x'. assign_vec_uni x (index_uni i) v = Done x'
        \<and> length x' = length x
        \<and> x' ! nat (i - 1) = v
        \<and> (\<forall>p<length x. p \<noteq> nat (i - 1) \<longrightarrow> x' ! p = x ! p)"
  by (simp add: assign_vec_uni_def check_range_def)

text \<open>C9 at position 2 of \<open>[1,2,3]\<close>.\<close>

theorem assign_vec_uni_round_trip_witness:
  "(1::int) \<le> 2 \<and> 2 \<le> int (length [1, 2, 3 :: real])
   \<and> (\<exists>x'. assign_vec_uni [1, 2, 3 :: real] (index_uni 2) 9 = Done x'
        \<and> length x' = length [1, 2, 3 :: real]
        \<and> x' ! nat (2 - 1) = 9
        \<and> (\<forall>p<length [1, 2, 3 :: real]. p \<noteq> nat (2 - 1) \<longrightarrow> x' ! p = [1, 2, 3] ! p))"
proof -
  have h1: "(1::int) \<le> 2" by simp
  have h2: "(2::int) \<le> int (length [1, 2, 3 :: real])" by simp
  from assign_vec_uni_round_trip [OF h1 h2, of 9] h1 h2 show ?thesis by blast
qed

text \<open>
  C10. The overload \<^verbatim>\<open>mat[uni,] = rowvec\<close> never raises OutOfRange: it validates the
  column count only. When the column counts differ, both it and \<^verbatim>\<open>mat[uni] = rowvec\<close>
  raise SizeMismatch; when they agree and the row index lies outside \<open>[1, rows]\<close>,
  \<^verbatim>\<open>mat[uni]\<close> raises OutOfRange and leaves the matrix unmodified, while \<^verbatim>\<open>mat[uni,]\<close>
  goes on to the row write, outside the bounds of the matrix.
\<close>

theorem assign_mat_uni_omni_unchecked:
  "(\<forall>x'. assign_mat_uni_omni x idxs y \<noteq> Raised OutOfRange x')
   \<and> (cols x \<noteq> length y \<longrightarrow>
        assign_mat_uni_omni x idxs y = Raised SizeMismatch x
        \<and> assign_mat_uni x idxs y = Raised SizeMismatch x)
   \<and> (cols x = length y \<and> (n idxs < 1 \<or> int (rows x) < n idxs) \<longrightarrow>
        assign_mat_uni_omni x idxs y = Undefined
        \<and> assign_mat_uni x idxs y = Raised OutOfRange x)"
  by (auto simp add: assign_mat_uni_omni_def assign_mat_uni_def check_size_match_def
      check_range_def row_assign_def)

text \<open>C10 at row 3 of a matrix of two rows, with a value of two entries and of one.\<close>

theorem assign_mat_uni_omni_unchecked_witness:
  "cols (Matrix 2 [[1, 2], [3, 4 :: real]]) = length [7, 8 :: real]
   \<and> (n (index_uni 3) < 1 \<or> int (rows (Matrix 2 [[1, 2], [3, 4 :: real]])) < n (index_uni 3))
   \<and> assign_mat_uni_omni (Matrix 2 [[1, 2], [3, 4 :: real]]) (index_uni 3) [7, 8] = Undefined
   \<and> assign_mat_uni (Matrix 2 [[1, 2], [3, 4 :: real]]) (index_uni 3) [7, 8]
       = Raised OutOfRange (Matrix 2 [[1, 2], [3, 4]])
   \<and> cols (Matrix 2 [[1, 2], [3, 4 :: real]]) \<noteq> length [7 :: real]
   \<and> assign_mat_uni_omni (Matrix 2 [[1, 2], [3, 4 :: real]]) (index_uni 3) [7]
       = Raised SizeMismatch (Matrix 2 [[1, 2], [3, 4]])"
  using assign_mat_uni_omni_unchecked
          [of "Matrix 2 [[1, 2], [3, 4 :: real]]" "index_uni 3" "[7, 8]"]
    assign_mat_uni_omni_unchecked
          [of "Matrix 2 [[1, 2], [3, 4 :: real]]" "index_uni 3" "[7]"]
  by (simp add: rows_def)

section \<open>Properties of the estimator\<close>

lemma covariance_square:
  assumes "covariance y = Returns c"
  shows "square (cols y) c"
proof -
  from assms have "matrix_divide
      (matrix_product (transpose_matrix (rowwise_minus y (colwise_mean y)))
         (rowwise_minus y (colwise_mean y)))
      (max (real (rows (rowwise_minus y (colwise_mean y))) - 1) 1) = Some c"
    by (simp add: covariance_def Let_def split: if_splits option.splits)
  then show ?thesis
    by (auto simp add: square_def matrix_divide_def matrix_product_def transpose_matrix_def
        rowwise_minus_def rows_def wf_matrix_def list_all_iff split: if_splits)
qed

lemma covariance_finite: "covariance y \<noteq> NotFinite"
proof -
  have "max (real (rows (rowwise_minus y (colwise_mean y))) - 1) 1 \<noteq> 0"
    by simp
  then show ?thesis
    by (simp add: covariance_def Let_def matrix_divide_def)
qed

lemma covariance_single_row_centered:
  assumes "length r = c"
  shows "rowwise_minus (Matrix c [r]) (colwise_mean (Matrix c [r])) = Matrix c [replicate c 0]"
proof -
  have "colwise_mean (Matrix c [r]) = r"
    using assms by (auto simp add: colwise_mean_def rows_def intro: nth_equalityI)
  moreover have "map2 (-) r r = replicate c 0"
    using assms by (auto intro: nth_equalityI)
  ultimately show ?thesis
    by (simp add: rowwise_minus_def)
qed

text \<open>
  C7, amended. For every matrix with exactly one row and at least one column,
  \<^verbatim>\<open>covariance\<close> returns the zero matrix with as many rows and columns as the input
  has columns. It returns: it has not divided by zero, which would give \<open>NotFinite\<close>
  in place of a matrix.
\<close>

theorem covariance_single_row:
  assumes "wf_matrix y" and "rows y = 1" and "0 < cols y"
  shows "covariance y = Returns (zero_matrix (cols y) (cols y))"
proof -
  obtain c rs where y: "y = Matrix c rs" by (cases y)
  with assms(2) obtain r where rs: "rs = [r]"
    by (cases rs) (auto simp add: rows_def)
  from assms(1) y rs have len: "length r = c"
    by (simp add: wf_matrix_def)
  from assms(3) y have c: "0 < c" by simp
  let ?z = "Matrix c [replicate c (0::real)]"
  have t: "transpose_matrix ?z = Matrix 1 (replicate c [0])"
    by (auto simp add: transpose_matrix_def rows_def intro: nth_equalityI)
  have p: "matrix_product (Matrix 1 (replicate c [0])) ?z = zero_matrix c c"
    by (auto simp add: matrix_product_def zero_matrix_def intro!: nth_equalityI)
  have d: "matrix_divide (zero_matrix c c) 1 = Some (zero_matrix c c)"
    by (simp add: matrix_divide_def zero_matrix_def)
  have "check_nonzero_size y"
    using y rs c by (simp add: check_nonzero_size_def rows_def)
  then show ?thesis
    using y rs covariance_single_row_centered [OF len] t p d assms(2)
    by (simp add: covariance_def rows_def)
qed

text \<open>
  The amended C7 at the one-row matrix \<open>[3, 7]\<close>.
\<close>

theorem covariance_single_row_witness:
  "wf_matrix (Matrix 2 [[3, 7 :: real]]) \<and> rows (Matrix 2 [[3, 7 :: real]]) = 1
   \<and> 0 < cols (Matrix 2 [[3, 7 :: real]])
   \<and> covariance (Matrix 2 [[3, 7]]) = Returns (Matrix 2 [[0, 0], [0, 0]])"
proof -
  have h1: "wf_matrix (Matrix 2 [[3, 7 :: real]])" by (simp add: wf_matrix_def)
  have h2: "rows (Matrix 2 [[3, 7 :: real]]) = 1" by (simp add: rows_def)
  have h3: "0 < cols (Matrix 2 [[3, 7 :: real]])" by simp
  have z: "zero_matrix 2 2 = Matrix 2 [[0, 0], [0, 0]]"
    by (simp add: zero_matrix_def numeral_2_eq_2)
  from covariance_single_row [OF h1 h2 h3] h1 h2 h3 z show ?thesis by simp
qed

text \<open>
  C7, as stated, fails at the matrix with one row and no column: its size is zero, and
  \<^verbatim>\<open>check_nonzero_size\<close> throws before anything is computed.
\<close>

theorem covariance_single_row_no_columns:
  "rows (Matrix 0 [[] :: real list]) = 1
   \<and> wf_matrix (Matrix 0 [[] :: real list])
   \<and> covariance (Matrix 0 [[]]) = Throws ZeroSize"
  by (simp add: covariance_def check_nonzero_size_def rows_def wf_matrix_def)


lemma square_rows_nth:
  "square m a \<Longrightarrow> i < m \<Longrightarrow> length (row_list a ! i) = m"
  by (simp add: square_def wf_matrix_def rows_def list_all_length)

lemma make_candidates_dense:
  assumes sq: "square m ctrain" and k: "num_draws - ntest = int k"
  shows "dense (make_candidates num_draws ntest ctrain ctest) = shrinkage k ctrain"
proof -
  from sq have dims: "cols ctrain = m" "length (row_list ctrain) = m"
    by (simp_all add: square_def rows_def)
  have "map2 (map2 (+))
          (map (map (\<lambda>e. real k / (real k + 5) * e)) (row_list ctrain))
          (map (map (\<lambda>e. 1 / 1000 * (5 / (real k + 5)) * e))
             (map (\<lambda>i. map (\<lambda>j. if i = j then 1 else 0) [0..<m]) [0..<m]))
        = map (\<lambda>i. map (\<lambda>j. real k / (real k + 5) * (row_list ctrain ! i ! j)
                          + (if i = j then 1 / 1000 * (5 / (real k + 5)) else 0))
                 [0..<m]) [0..<m]"
  proof (rule nth_equalityI)
    show "length (map2 (map2 (+))
          (map (map (\<lambda>e. real k / (real k + 5) * e)) (row_list ctrain))
          (map (map (\<lambda>e. 1 / 1000 * (5 / (real k + 5)) * e))
             (map (\<lambda>i. map (\<lambda>j. if i = j then 1 else 0) [0..<m]) [0..<m])))
        = length (map (\<lambda>i. map (\<lambda>j. real k / (real k + 5) * (row_list ctrain ! i ! j)
                          + (if i = j then 1 / 1000 * (5 / (real k + 5)) else 0))
                 [0..<m]) [0..<m])"
      using dims by simp
  next
    fix i
    assume "i < length (map2 (map2 (+))
          (map (map (\<lambda>e. real k / (real k + 5) * e)) (row_list ctrain))
          (map (map (\<lambda>e. 1 / 1000 * (5 / (real k + 5)) * e))
             (map (\<lambda>i. map (\<lambda>j. if i = j then 1 else 0) [0..<m]) [0..<m])))"
    then have i: "i < m" using dims by simp
    then have len: "length (row_list ctrain ! i) = m"
      by (rule square_rows_nth [OF sq])
    show "map2 (map2 (+))
          (map (map (\<lambda>e. real k / (real k + 5) * e)) (row_list ctrain))
          (map (map (\<lambda>e. 1 / 1000 * (5 / (real k + 5)) * e))
             (map (\<lambda>i. map (\<lambda>j. if i = j then 1 else 0) [0..<m]) [0..<m])) ! i
        = map (\<lambda>i. map (\<lambda>j. real k / (real k + 5) * (row_list ctrain ! i ! j)
                          + (if i = j then 1 / 1000 * (5 / (real k + 5)) else 0))
                 [0..<m]) [0..<m] ! i"
      using i len dims by (auto intro!: nth_equalityI)
  qed
  then show ?thesis
    using dims k
    by (simp add: make_candidates_def Let_def shrinkage_def matrix_plus_def scalar_times_def
        identity_matrix_def rows_def)
qed

lemma shrinkage_square: "square m c \<Longrightarrow> square m (shrinkage k c)"
  by (simp add: square_def shrinkage_def rows_def wf_matrix_def list_all_iff)

lemma asDiagonal_diagonal:
  assumes "square m d"
  shows "asDiagonal (diagonal d) = diagonal_projection d"
  using assms
  by (auto simp add: asDiagonal_def diagonal_def diagonal_projection_def square_def rows_def)

lemma make_candidates_diag:
  "diag (make_candidates num_draws ntest ctrain ctest)
     = asDiagonal (diagonal (dense (make_candidates num_draws ntest ctrain ctest)))"
  by (simp add: make_candidates_def Let_def)

lemma make_candidates_fields:
  "Ntest (make_candidates num_draws ntest ctrain ctest) = ntest"
  "cov_train (make_candidates num_draws ntest ctrain ctest) = ctrain"
  "cov_test (make_candidates num_draws ntest ctrain ctest) = ctest"
  by (simp_all add: make_candidates_def Let_def)

lemma block_dims:
  assumes "block a r0 c0 nr nc = Some b"
  shows "int (rows b) = nr" and "int (cols b) = nc"
  using assms by (auto simp add: block_def rows_def split: if_splits)

lemma floor_fifth: "\<lfloor>real_of_int k / 5\<rfloor> = k div 5"
proof -
  have "real_of_int k / 5 = real_of_int k / real_of_int 5" by simp
  then show ?thesis
    by (simp only: floor_divide_of_int_eq)
qed

lemma pass_candidates_training:
  assumes "pass_candidates st first_draw num_draws state = Returns c"
  shows "Ntest c = held_out state num_draws
   \<and> (\<exists>Ytrain. block (Y st) first_draw 0 (num_draws - Ntest c) (int (n_params st)) = Some Ytrain
        \<and> covariance Ytrain = Returns (cov_train c)
        \<and> c = make_candidates num_draws (Ntest c) (cov_train c) (cov_test c))"
proof (cases state)
  case Selection
  with assms show ?thesis
    by (auto simp add: pass_candidates_def held_out_def floor_fifth Let_def
        make_candidates_fields max_def split: if_splits option.splits result.splits)
next
  case Refinement
  with assms show ?thesis
    by (auto simp add: pass_candidates_def held_out_def Let_def make_candidates_fields
        split: if_splits option.splits result.splits)
qed

text \<open>
  C8, amended. In each pass of \<^verbatim>\<open>learn_metric\<close> that forms its candidates, the dense
  candidate is \<open>k / (k + 5)\<close> times the sample covariance of the training set plus
  \<open>1 / 1000 * (5 / (k + 5))\<close> times the identity, where \<open>k\<close> is the size of the
  training set, that is the number of usable draws minus the size of the held-out tail;
  the diagonal candidate is the diagonal projection of the dense candidate.
\<close>

theorem candidates_shrinkage:
  assumes "pass_candidates st first_draw num_draws state = Returns c"
  shows "\<exists>Ytrain. block (Y st) first_draw 0 (num_draws - held_out state num_draws)
                     (int (n_params st)) = Some Ytrain
           \<and> int (rows Ytrain) = num_draws - held_out state num_draws
           \<and> covariance Ytrain = Returns (cov_train c)
           \<and> dense c = shrinkage (rows Ytrain) (cov_train c)
           \<and> diag c = diagonal_projection (dense c)"
proof -
  from pass_candidates_training [OF assms]
  obtain Ytrain where nt: "Ntest c = held_out state num_draws"
    and b: "block (Y st) first_draw 0 (num_draws - Ntest c) (int (n_params st)) = Some Ytrain"
    and cv: "covariance Ytrain = Returns (cov_train c)"
    and c: "c = make_candidates num_draws (Ntest c) (cov_train c) (cov_test c)"
    by blast
  have r: "num_draws - Ntest c = int (rows Ytrain)"
    using block_dims(1) [OF b] by simp
  have sq: "square (cols Ytrain) (cov_train c)"
    by (rule covariance_square [OF cv])
  have d: "dense c = shrinkage (rows Ytrain) (cov_train c)"
    using make_candidates_dense [OF sq r, of "cov_test c"] c by simp
  have "square (cols Ytrain) (dense c)"
    unfolding d by (rule shrinkage_square [OF sq])
  then have "asDiagonal (diagonal (dense c)) = diagonal_projection (dense c)"
    by (rule asDiagonal_diagonal)
  moreover have "diag c = asDiagonal (diagonal (dense c))"
    using make_candidates_diag [of num_draws "Ntest c" "cov_train c" "cov_test c"] c by simp
  ultimately show ?thesis
    using b r cv d nt by auto
qed


lemma ten_draws_selection:
  "pass_candidates ten_draws 0 10 Selection =
     Returns \<lparr>Ntest = 5, cov_train = Matrix 1 [[5 / 2]], cov_test = Matrix 1 [[5 / 2]],
              dense = Matrix 1 [[2501 / 2000]], diag = Matrix 1 [[2501 / 2000]]\<rparr>"
  by (simp add: pass_candidates_def ten_draws_def block_def rows_def covariance_def
      check_nonzero_size_def rowwise_minus_def colwise_mean_def transpose_matrix_def
      matrix_product_def matrix_divide_def make_candidates_def scalar_times_def
      matrix_plus_def identity_matrix_def diagonal_def asDiagonal_def Let_def)

text \<open>
  The amended C8 in the selection pass over ten usable draws: five training rows.
\<close>

theorem candidates_shrinkage_witness:
  "pass_candidates ten_draws 0 10 Selection =
     Returns \<lparr>Ntest = 5, cov_train = Matrix 1 [[5 / 2]], cov_test = Matrix 1 [[5 / 2]],
              dense = Matrix 1 [[2501 / 2000]], diag = Matrix 1 [[2501 / 2000]]\<rparr>
   \<and> (\<exists>Ytrain. block (Y ten_draws) 0 0 (10 - held_out Selection 10)
                    (int (n_params ten_draws)) = Some Ytrain
          \<and> int (rows Ytrain) = 10 - held_out Selection 10
          \<and> covariance Ytrain = Returns (Matrix 1 [[5 / 2]])
          \<and> Matrix 1 [[2501 / 2000]] = shrinkage (rows Ytrain) (Matrix 1 [[5 / 2]])
          \<and> Matrix 1 [[2501 / 2000]] = diagonal_projection (Matrix 1 [[2501 / 2000]]))"
  using candidates_shrinkage [OF ten_draws_selection] ten_draws_selection by simp

text \<open>
  C8, as stated, fails in the selection pass over ten usable draws: the training set
  and the held-out tail have five rows each, and the weight "training-set size minus
  held-out size" is 0, for which the shrinkage of the training covariance \<open>5/2\<close> is
  \<open>1/1000\<close>; the dense candidate of the code is \<open>2501/2000\<close>, from the weight 5.
\<close>

theorem candidates_shrinkage_not_train_minus_test:
  "first_draw_of ten_draws 0 = 0 \<and> num_draws_of ten_draws 0 = 10
   \<and> pass_candidates ten_draws 0 10 Selection =
     Returns \<lparr>Ntest = 5, cov_train = Matrix 1 [[5 / 2]], cov_test = Matrix 1 [[5 / 2]],
              dense = Matrix 1 [[2501 / 2000]], diag = Matrix 1 [[2501 / 2000]]\<rparr>
   \<and> block (Y ten_draws) 0 0 5 1 = Some (Matrix 1 [[1], [2], [3], [4], [5]])
   \<and> block (Y ten_draws) 5 0 5 1 = Some (Matrix 1 [[6], [7], [8], [9], [10]])
   \<and> shrinkage (rows (Matrix 1 [[1], [2], [3], [4], [5 :: real]])
                 - rows (Matrix 1 [[6], [7], [8], [9], [10 :: real]]))
        (Matrix 1 [[5 / 2]])
       = Matrix 1 [[1 / 1000]]
   \<and> Matrix 1 [[2501 / 2000]] \<noteq> Matrix 1 [[1 / 1000 :: real]]"
  by (simp add: ten_draws_selection)
    (simp add: ten_draws_def block_def rows_def shrinkage_def first_draw_of_def
      num_draws_of_def)

lemma fallback_metric_entries:
  "fallback_metric M num_draws =
     Matrix M (map (\<lambda>i. map (\<lambda>j. if i = j then 1 / 1000 * (5 / (real_of_int num_draws + 5)) else 0)
                        [0..<M]) [0..<M])"
proof -
  have d: "diagonal (zero_matrix M M) = replicate M 0"
    by (auto simp add: diagonal_def zero_matrix_def rows_def intro: nth_equalityI)
  have "map2 (+)
          (map (\<lambda>e. (real_of_int num_draws / (real_of_int num_draws + 5)) * e) (replicate M 0))
          (map (\<lambda>e. 1 / 1000 * (5 / (real_of_int num_draws + 5)) * e) (replicate M 1))
        = replicate M (1 / 1000 * (5 / (real_of_int num_draws + 5)))"
    by (auto intro: nth_equalityI)
  moreover have "cols (zero_matrix M M) = M"
    by (simp add: zero_matrix_def)
  ultimately have "fallback_metric M num_draws
      = asDiagonal (replicate M (1 / 1000 * (5 / (real_of_int num_draws + 5))))"
    by (simp only: fallback_metric_def Let_def d)
  then show ?thesis
    by (simp add: asDiagonal_def)
qed

text \<open>
  C3. When \<^verbatim>\<open>learn_metric\<close> has collected its draws and fewer than 10 are usable, the
  selection pass throws InsufficientSamples; \<^verbatim>\<open>learn_metric\<close> returns all the same,
  with \<^verbatim>\<open>is_diagonal_\<close> set and with the fallback of its handler as the metric, which
  is the diagonal matrix with \<open>1 / 1000 * (5 / (num_draws + 5))\<close> on the diagonal.
\<close>

theorem learn_metric_insufficient_samples:
  assumes "collect_draws polls st0 = Returns st"
    and "num_draws_of st win < 10"
  shows "pass_candidates st (first_draw_of st win) (num_draws_of st win) Selection
           = Throws InsufficientSamples
       \<and> learn_metric select polls st0 win
           = Returns (fallback_metric (n_params st) (num_draws_of st win),
                      st\<lparr>is_diagonal := True\<rparr>)
       \<and> fallback_metric (n_params st) (num_draws_of st win)
           = Matrix (n_params st)
               (map (\<lambda>i. map (\<lambda>j. if i = j
                                   then 1 / 1000 * (5 / (real_of_int (num_draws_of st win) + 5))
                                   else 0)
                           [0..<n_params st]) [0..<n_params st])"
proof -
  have p: "pass_candidates st (first_draw_of st win) (num_draws_of st win) Selection
             = Throws InsufficientSamples"
    using assms(2) by (simp add: pass_candidates_def Let_def)
  then have "try_passes select st (first_draw_of st win) (num_draws_of st win)
               = Throws InsufficientSamples"
    by (simp add: try_passes_def)
  then have "learn_metric select polls st0 win
           = Returns (fallback_metric (n_params st) (num_draws_of st win),
                      st\<lparr>is_diagonal := True\<rparr>)"
    using assms(1) by (simp add: learn_metric_def Let_def)
  with p show ?thesis
    by (simp add: fallback_metric_entries)
qed

lemma eight_draws_collect:
  "collect_draws [None, Some 1, None, Some 0] eight_draws = Returns eight_draws_collected"
  by (simp add: collect_draws_def eight_draws_def eight_draws_collected_def reset_req_def
      col_transpose_def block_row_assign_def rows_def)

lemma eight_draws_count: "num_draws_of eight_draws_collected 0 = 8"
  by (simp add: num_draws_of_def first_draw_of_def eight_draws_collected_def)

text \<open>
  C3 on four chains with two gathers each, eight usable draws.
\<close>

theorem learn_metric_insufficient_samples_witness:
  "collect_draws [None, Some 1, None, Some 0] eight_draws = Returns eight_draws_collected
   \<and> num_draws_of eight_draws_collected 0 < 10
   \<and> pass_candidates eight_draws_collected (first_draw_of eight_draws_collected 0) 8 Selection
       = Throws InsufficientSamples
   \<and> learn_metric (\<lambda>c qs. Returns True) [None, Some 1, None, Some 0] eight_draws 0
       = Returns (Matrix 1 [[1 / 2600]], eight_draws_collected\<lparr>is_diagonal := True\<rparr>)"
proof -
  have h: "num_draws_of eight_draws_collected 0 < 10"
    by (simp add: eight_draws_count)
  have n: "n_params eight_draws_collected = 1"
    by (simp add: eight_draws_collected_def)
  from learn_metric_insufficient_samples [OF eight_draws_collect h, of "\<lambda>c qs. Returns True"]
  show ?thesis
    using eight_draws_collect h by (simp add: eight_draws_count n)
qed





text \<open>
  Outside the contract of the operator and of the cap. An operator whose first product
  differs in size from the initial vector makes \<^verbatim>\<open>check_matching_sizes\<close> throw; one
  that changes the size later reaches \<^verbatim>\<open>v.dot(Av)\<close> with two sizes; with a cap below
  1 the loop body never runs, and 0 is returned with \<^verbatim>\<open>max_iterations\<close> and
  \<^verbatim>\<open>tol\<close> as they were supplied.
\<close>

lemma power_method_first_size:
  fixes sq :: "('s::{zero,plus,minus,times,inverse,abs,ord}) \<Rightarrow> 's"
  shows "length (f v0) \<noteq> length v0 \<Longrightarrow> power_method sq f v0 cap tol = Throws SizeMismatch"
  by (simp add: power_method_def Let_def)

lemma power_method_later_size:
  "power_method sqrt shrinking [2, 0] 3 (1 / 1000) = Undef"
  by (simp add: power_method_def power_method_loop.simps dot_def sum_products_def
      norm_with_def shrinking_def)

lemma power_method_loop_not_entered:
  fixes sq :: "('s::{zero,plus,minus,times,inverse,abs,ord}) \<Rightarrow> 's"
  shows "length (f v0) = length v0 \<Longrightarrow> cap \<le> 0 \<Longrightarrow>
         power_method sq f v0 cap tol = Returns (0, cap, tol)"
  by (simp add: power_method_def Let_def power_method_loop.simps [of _ _ cap])






end
